theory Spec2Isabelle
  imports Complex_Main
begin

section \<open>Python values\<close>

text \<open>
  The engine of \<^verbatim>\<open>app/lpp.py\<close> works on dynamically typed data: the evaluation context is a
  dictionary of raw documents, rules and thresholds come from YAML. A value is one of the
  shapes such data takes. A \<^verbatim>\<open>datetime\<close> is kept with its calendar fields; the code reads only
  \<^verbatim>\<open>year\<close> and \<^verbatim>\<open>month\<close>. A Python float is read as the real number it stands for (rounding,
  overflow and NaN are outside the model). A dictionary is an association list in insertion
  order with string keys, looked up with \<open>map_of\<close>.
\<close>

datatype datetime = Datetime (year: int) (month: int) (day: int)

datatype pyval =
    PNone
  | PBool bool
  | PInt int
  | PFloat real
  | PStr string
  | PDate datetime
  | PList "pyval list"
  | PDict "(string \<times> pyval) list"

datatype py_error = AttributeError | TypeError | KeyError | ValueError

type_synonym dict = "(string \<times> pyval) list"

definition bind_res :: "py_error + 'a \<Rightarrow> ('a \<Rightarrow> py_error + 'b) \<Rightarrow> py_error + 'b" where
  "bind_res r f = (case r of Inl e \<Rightarrow> Inl e | Inr v \<Rightarrow> f v)"

fun is_dict :: "pyval \<Rightarrow> bool" where
  "is_dict (PDict d) = True"
| "is_dict v = False"

text \<open>Truthiness (\<^verbatim>\<open>not x\<close>, \<^verbatim>\<open>if x\<close>, \<^verbatim>\<open>x or y\<close>).\<close>

fun truthy :: "pyval \<Rightarrow> bool" where
  "truthy PNone = False"
| "truthy (PBool b) = b"
| "truthy (PInt i) = (i \<noteq> 0)"
| "truthy (PFloat x) = (x \<noteq> 0)"
| "truthy (PStr s) = (s \<noteq> [])"
| "truthy (PDate d) = True"
| "truthy (PList xs) = (xs \<noteq> [])"
| "truthy (PDict kvs) = (kvs \<noteq> [])"

definition py_or :: "pyval \<Rightarrow> pyval \<Rightarrow> pyval" where
  "py_or a b = (if truthy a then a else b)"

text \<open>\<^verbatim>\<open>d.get(k, dflt)\<close> on a dictionary, and on any value (only a dictionary has \<^verbatim>\<open>get\<close>).\<close>

definition dict_get :: "dict \<Rightarrow> string \<Rightarrow> pyval \<Rightarrow> pyval" where
  "dict_get d k dflt = (case map_of d k of None \<Rightarrow> dflt | Some v \<Rightarrow> v)"

fun py_get :: "pyval \<Rightarrow> string \<Rightarrow> pyval \<Rightarrow> py_error + pyval" where
  "py_get (PDict d) k dflt = Inr (dict_get d k dflt)"
| "py_get v k dflt = Inl AttributeError"

text \<open>
  The elements a \<^verbatim>\<open>for\<close> loop or a generator runs over: the items of a list, the characters
  of a string, the keys of a dictionary; any other value is not iterable.
\<close>

fun py_iter :: "pyval \<Rightarrow> py_error + pyval list" where
  "py_iter (PList xs) = Inr xs"
| "py_iter (PStr s) = Inr (map (\<lambda>c. PStr [c]) s)"
| "py_iter (PDict d) = Inr (map (\<lambda>kv. PStr (fst kv)) d)"
| "py_iter v = Inl TypeError"

section \<open>Strings\<close>

text \<open>
  Strings are lists of characters; the character classes are those of ASCII text
  (\<^verbatim>\<open>str.isspace\<close> holds for the codes 9 to 13 and 28 to 32).
\<close>

definition isspace :: "char \<Rightarrow> bool" where
  "isspace c = (let n = (of_char c :: nat) in (9 \<le> n \<and> n \<le> 13) \<or> (28 \<le> n \<and> n \<le> 32))"

definition isalnum :: "char \<Rightarrow> bool" where
  "isalnum c = (let n = (of_char c :: nat) in
     (48 \<le> n \<and> n \<le> 57) \<or> (65 \<le> n \<and> n \<le> 90) \<or> (97 \<le> n \<and> n \<le> 122))"

definition lower_char :: "char \<Rightarrow> char" where
  "lower_char c = (let n = (of_char c :: nat) in
     if 65 \<le> n \<and> n \<le> 90 then ''abcdefghijklmnopqrstuvwxyz'' ! (n - 65) else c)"

definition lower :: "string \<Rightarrow> string" where
  "lower s = map lower_char s"

definition strip :: "string \<Rightarrow> string" where
  "strip s = rev (dropWhile isspace (rev (dropWhile isspace s)))"

text \<open>\<^verbatim>\<open>s.split(sep)\<close> for a one-character separator: never the empty list.\<close>

fun split_on :: "char \<Rightarrow> string \<Rightarrow> string list" where
  "split_on sep [] = [[]]"
| "split_on sep (c # cs) =
     (if c = sep then [] # split_on sep cs
      else (case split_on sep cs of [] \<Rightarrow> [[c]] | w # ws \<Rightarrow> (c # w) # ws))"

text \<open>\<^verbatim>\<open>s[-4:]\<close>, \<^verbatim>\<open>s.startswith(p)\<close> and \<^verbatim>\<open>p in s\<close>.\<close>

definition last4 :: "string \<Rightarrow> string" where
  "last4 s = drop (length s - 4) s"

definition startswith :: "string \<Rightarrow> string \<Rightarrow> bool" where
  "startswith s p = (take (length p) s = p)"

fun contains_str :: "string \<Rightarrow> string \<Rightarrow> bool" where
  "contains_str p [] = (p = [])"
| "contains_str p (c # cs) = (startswith (c # cs) p \<or> contains_str p cs)"

section \<open>Field resolver\<close>

text \<open>
  \<^verbatim>\<open>part in cur\<close> and \<^verbatim>\<open>cur[part]\<close> for a string \<^verbatim>\<open>part\<close>: both raise on a value that is not a
  container, and indexing a dictionary raises on a missing key.
\<close>

fun py_contains :: "pyval \<Rightarrow> string \<Rightarrow> py_error + bool" where
  "py_contains (PDict d) k = Inr (map_of d k \<noteq> None)"
| "py_contains (PList xs) k = Inr (PStr k \<in> set xs)"
| "py_contains (PStr s) k = Inr (contains_str k s)"
| "py_contains v k = Inl TypeError"

fun py_getitem :: "pyval \<Rightarrow> string \<Rightarrow> py_error + pyval" where
  "py_getitem (PDict d) k = (case map_of d k of None \<Rightarrow> Inl KeyError | Some v \<Rightarrow> Inr v)"
| "py_getitem v k = Inl TypeError"

text \<open>
  The field-path configuration (\<^verbatim>\<open>self.fields\<close>) is what the YAML file holds under \<^verbatim>\<open>fields\<close>:
  a mapping from section to a mapping from field name to an entry with a dotted \<^verbatim>\<open>path\<close> and
  an optional \<^verbatim>\<open>default\<close>. It is a value like any other, and so is the context: each
  \<^verbatim>\<open>get\<close> raises on a value that is not a mapping.
\<close>

type_synonym fields = pyval

text \<open>\<^verbatim>\<open>path.split(".")\<close>: only a string has \<^verbatim>\<open>split\<close>.\<close>

fun py_split :: "pyval \<Rightarrow> py_error + string list" where
  "py_split (PStr s) = Inr (split_on (CHR ''.'') s)"
| "py_split v = Inl AttributeError"

text \<open>The loop of \<^verbatim>\<open>PathResolver.resolve\<close> over the segments of the path.\<close>

fun walk :: "pyval \<Rightarrow> string list \<Rightarrow> pyval \<Rightarrow> py_error + pyval" where
  "walk cur [] dflt = Inr (if cur \<noteq> PNone then cur else dflt)"
| "walk cur (part # parts) dflt =
     (if \<not> is_dict cur then Inr dflt
      else bind_res (py_contains cur part) (\<lambda>found.
        if \<not> found then Inr dflt
        else bind_res (py_getitem cur part) (\<lambda>nxt. walk nxt parts dflt)))"

definition resolve :: "fields \<Rightarrow> pyval \<Rightarrow> string \<Rightarrow> string \<Rightarrow> py_error + pyval" where
  "resolve flds context section name =
     bind_res (py_get flds section (PDict [])) (\<lambda>sec.
     bind_res (py_get sec name PNone) (\<lambda>cfg.
       if \<not> truthy cfg then Inr PNone
       else bind_res (py_get cfg ''path'' PNone) (\<lambda>path.
            bind_res (py_get cfg ''default'' PNone) (\<lambda>dflt.
            bind_res (py_get context section PNone) (\<lambda>cur.
            bind_res (py_split path) (\<lambda>parts. walk cur parts dflt))))))"

section \<open>Library functions\<close>

text \<open>
  What the engine takes from outside the repository is a parameter of the model, so that
  every theorem holds whatever these functions compute: \<^verbatim>\<open>datetime.strptime(value, fmt)\<close>,
  \<^verbatim>\<open>dateutil.parser.parse\<close>, \<^verbatim>\<open>float\<close> and \<^verbatim>\<open>int\<close> on a string (\<open>None\<close> where they raise),
  the similarity score \<^verbatim>\<open>int(fuzz.token_set_ratio(a, b))\<close> (or its \<^verbatim>\<open>difflib\<close> fallback), \<^verbatim>\<open>str\<close>
  of a float, a datetime, a list or a dictionary, and the clock \<^verbatim>\<open>datetime.now()\<close>.
\<close>

record pylib =
  strptime :: "string \<Rightarrow> string \<Rightarrow> datetime option"
  dateutil_parse :: "string \<Rightarrow> datetime option"
  float_of_str :: "string \<Rightarrow> real option"
  int_of_str :: "string \<Rightarrow> int option"
  token_set_ratio :: "string \<Rightarrow> string \<Rightarrow> int"
  str_other :: "pyval \<Rightarrow> string"
  now :: datetime

fun digits :: "nat \<Rightarrow> string" where
  "digits n = (if n < 10 then [''0123456789'' ! n]
               else digits (n div 10) @ [''0123456789'' ! (n mod 10)])"

definition str_int :: "int \<Rightarrow> string" where
  "str_int i = (if i < 0 then CHR ''-'' # digits (nat (- i)) else digits (nat i))"

fun py_str :: "pylib \<Rightarrow> pyval \<Rightarrow> string" where
  "py_str L (PStr s) = s"
| "py_str L PNone = ''None''"
| "py_str L (PBool b) = (if b then ''True'' else ''False'')"
| "py_str L (PInt i) = str_int i"
| "py_str L v = str_other L v"

text \<open>
  \<^verbatim>\<open>float(x)\<close> and \<^verbatim>\<open>int(x)\<close>; \<open>None\<close> where Python raises (every call of the engine stands
  under a bare \<^verbatim>\<open>except\<close>).
\<close>

fun py_float :: "pylib \<Rightarrow> pyval \<Rightarrow> real option" where
  "py_float L (PBool b) = Some (if b then 1 else 0)"
| "py_float L (PInt i) = Some (of_int i)"
| "py_float L (PFloat x) = Some x"
| "py_float L (PStr s) = float_of_str L s"
| "py_float L v = None"

fun py_int :: "pylib \<Rightarrow> pyval \<Rightarrow> int option" where
  "py_int L (PBool b) = Some (if b then 1 else 0)"
| "py_int L (PInt i) = Some i"
| "py_int L (PFloat x) = Some (if 0 \<le> x then \<lfloor>x\<rfloor> else \<lceil>x\<rceil>)"
| "py_int L (PStr s) = int_of_str L s"
| "py_int L v = None"

text \<open>The numeric value of an operand of \<^verbatim>\<open><\<close>, \<^verbatim>\<open>>\<close> or \<^verbatim>\<open>*\<close> against a number; \<^verbatim>\<open>TypeError\<close> otherwise.\<close>

fun num_val :: "pyval \<Rightarrow> real option" where
  "num_val (PBool b) = Some (if b then 1 else 0)"
| "num_val (PInt i) = Some (of_int i)"
| "num_val (PFloat x) = Some x"
| "num_val v = None"

definition py_gt :: "real \<Rightarrow> pyval \<Rightarrow> py_error + bool" where
  "py_gt x y = (case num_val y of None \<Rightarrow> Inl TypeError | Some r \<Rightarrow> Inr (r < x))"

definition py_lt :: "real \<Rightarrow> pyval \<Rightarrow> py_error + bool" where
  "py_lt x y = (case num_val y of None \<Rightarrow> Inl TypeError | Some r \<Rightarrow> Inr (x < r))"

section \<open>Value normalizers\<close>

definition fuzzy_ratio :: "pylib \<Rightarrow> pyval \<Rightarrow> pyval \<Rightarrow> int" where
  "fuzzy_ratio L a b =
     (if a = PNone \<or> b = PNone then 0 else token_set_ratio L (py_str L a) (py_str L b))"

definition normalize_string :: "pylib \<Rightarrow> pyval \<Rightarrow> string" where
  "normalize_string L s =
     (if s = PNone then []
      else strip (map lower_char (filter (\<lambda>ch. isalnum ch \<or> isspace ch) (py_str L s))))"

definition SUPPORTED_FORMATS :: "string list" where
  "SUPPORTED_FORMATS = [''%m-%d-%Y'', ''%Y-%m-%d'', ''%d-%m-%Y'', ''%m/%d/%Y'', ''%Y/%m/%d'']"

fun try_formats :: "pylib \<Rightarrow> string \<Rightarrow> string list \<Rightarrow> datetime option" where
  "try_formats L v [] = None"
| "try_formats L v (fmt # fmts) =
     (case strptime L v fmt of Some d \<Rightarrow> Some d | None \<Rightarrow> try_formats L v fmts)"

definition parse_date :: "pylib \<Rightarrow> pyval \<Rightarrow> datetime option" where
  "parse_date L v =
     (if \<not> truthy v then None
      else case v of
        PDate d \<Rightarrow> Some d
      | _ \<Rightarrow> (let s = strip (py_str L v) in
              case try_formats L s SUPPORTED_FORMATS of
                Some d \<Rightarrow> Some d
              | None \<Rightarrow> dateutil_parse L s))"

text \<open>The value \<^verbatim>\<open>parse_date\<close> hands to its caller: \<^verbatim>\<open>None\<close> or the datetime.\<close>

definition date_val :: "datetime option \<Rightarrow> pyval" where
  "date_val r = (case r of None \<Rightarrow> PNone | Some d \<Rightarrow> PDate d)"

text \<open>\<^verbatim>\<open>months_between(d1, d2=None)\<close>: a \<^verbatim>\<open>None\<close> second argument is the clock.\<close>

definition months_between :: "pylib \<Rightarrow> pyval \<Rightarrow> pyval \<Rightarrow> py_error + int" where
  "months_between L d1 d2 =
     (case parse_date L d1 of
        None \<Rightarrow> Inl ValueError
      | Some a \<Rightarrow>
          (case (if d2 = PNone then Some (now L) else parse_date L d2) of
             None \<Rightarrow> Inl ValueError
           | Some b \<Rightarrow> Inr (\<bar>(year b - year a) * 12 + (month b - month a)\<bar>)))"

section \<open>Verdicts\<close>

datatype verdict_status = PASS | ALERT | CONDITION | NOT_APPLICABLE

record verdict =
  rule_id :: pyval
  status :: verdict_status
  message :: pyval
  details :: pyval

text \<open>
  The four constructors of \<^verbatim>\<open>BaseValidator\<close>; an omitted \<^verbatim>\<open>message\<close> or \<^verbatim>\<open>details\<close> argument
  is \<open>PNone\<close>.
\<close>

definition pass_result :: "dict \<Rightarrow> pyval \<Rightarrow> verdict" where
  "pass_result rule dets =
     \<lparr>rule_id = dict_get rule ''id'' PNone, status = PASS, message = PStr [],
      details = py_or dets (PDict [])\<rparr>"

definition alert_result :: "dict \<Rightarrow> pyval \<Rightarrow> pyval \<Rightarrow> verdict" where
  "alert_result rule msg dets =
     \<lparr>rule_id = dict_get rule ''id'' PNone, status = ALERT,
      message = py_or msg (dict_get rule ''alert_message'' (PStr [])),
      details = py_or dets (PDict [])\<rparr>"

definition condition_result :: "dict \<Rightarrow> pyval \<Rightarrow> pyval \<Rightarrow> verdict" where
  "condition_result rule msg dets =
     \<lparr>rule_id = dict_get rule ''id'' PNone, status = CONDITION,
      message = py_or msg (dict_get rule ''condition_message'' (PStr [])),
      details = py_or dets (PDict [])\<rparr>"

definition not_applicable_result :: "dict \<Rightarrow> pyval \<Rightarrow> verdict" where
  "not_applicable_result rule dets =
     \<lparr>rule_id = dict_get rule ''id'' PNone, status = NOT_APPLICABLE, message = PStr [],
      details = py_or dets (PDict [])\<rparr>"

text \<open>\<^verbatim>\<open>rule.get('params', {}).get(k, dflt)\<close>.\<close>

definition rule_param :: "dict \<Rightarrow> string \<Rightarrow> pyval \<Rightarrow> py_error + pyval" where
  "rule_param rule k dflt = py_get (dict_get rule ''params'' (PDict [])) k dflt"

section \<open>Validators\<close>

text \<open>
  Every validator is \<^verbatim>\<open>evaluate(self, rule, context, resolver)\<close>; the resolver is its field
  configuration. \<open>Inl\<close> is an exception that leaves the validator.
\<close>

text \<open>\<^verbatim>\<open>to_pct\<close>, the local function of \<^verbatim>\<open>LTVValidator.evaluate\<close>.\<close>

definition to_pct :: "pylib \<Rightarrow> pyval \<Rightarrow> real option" where
  "to_pct L x =
     (if x = PNone then None
      else case py_float L x of
        None \<Rightarrow> None
      | Some v \<Rightarrow> Some (if v \<le> 1 then v * 100 else v))"

text \<open>
  One test of \<^verbatim>\<open>LTVValidator\<close>:
  \<^verbatim>\<open>l is not None and thresholds.get(k) is not None and l > thresholds.get(k)\<close>.
\<close>

definition exceeds :: "real option \<Rightarrow> pyval \<Rightarrow> string \<Rightarrow> py_error + bool" where
  "exceeds v thresholds k =
     (case v of
        None \<Rightarrow> Inr False
      | Some x \<Rightarrow> bind_res (py_get thresholds k PNone) (\<lambda>t.
          if t = PNone then Inr False else py_gt x t))"

definition LTVValidator_evaluate :: "pylib \<Rightarrow> fields \<Rightarrow> dict \<Rightarrow> dict \<Rightarrow> py_error + verdict" where
  "LTVValidator_evaluate L flds rule context =
     bind_res (resolve flds (PDict context) ''los'' ''ltv'') (\<lambda>ltv.
     bind_res (resolve flds (PDict context) ''los'' ''cltv'') (\<lambda>cltv.
     bind_res (resolve flds (PDict context) ''los'' ''hcltv'') (\<lambda>hcltv.
       let thresholds = dict_get rule ''thresholds'' (PDict []);
           dets = PDict [(''ltv'', ltv), (''cltv'', cltv), (''hcltv'', hcltv),
                         (''thresholds'', thresholds)];
           l = to_pct L ltv; c = to_pct L cltv; h = to_pct L hcltv
       in if truthy thresholds then
            bind_res (exceeds l thresholds ''ltv'') (\<lambda>b1.
              if b1 then Inr (alert_result rule PNone dets)
              else bind_res (exceeds c thresholds ''cltv'') (\<lambda>b2.
                if b2 then Inr (alert_result rule PNone dets)
                else bind_res (exceeds h thresholds ''hcltv'') (\<lambda>b3.
                  if b3 then Inr (alert_result rule PNone dets)
                  else Inr (pass_result rule dets))))
          else Inr (pass_result rule dets))))"

definition DTIValidator_evaluate :: "pylib \<Rightarrow> fields \<Rightarrow> dict \<Rightarrow> dict \<Rightarrow> py_error + verdict" where
  "DTIValidator_evaluate L flds rule context =
     bind_res (resolve flds (PDict context) ''los'' ''dti'') (\<lambda>dti.
     bind_res (rule_param rule ''dti_limit'' (PInt 50)) (\<lambda>limit.
       let dets = PDict [(''dti'', dti), (''limit'', limit)] in
       case py_float L dti of
         None \<Rightarrow> Inr (not_applicable_result rule PNone)
       | Some d \<Rightarrow> bind_res (py_gt d limit) (\<lambda>b.
           if b then Inr (alert_result rule PNone dets) else Inr (pass_result rule dets))))"

text \<open>\<^verbatim>\<open>str(x).strip().lower()\<close>.\<close>

definition norm_text :: "pylib \<Rightarrow> pyval \<Rightarrow> string" where
  "norm_text L v = lower (strip (py_str L v))"

definition OccupancyValidator_evaluate :: "pylib \<Rightarrow> fields \<Rightarrow> dict \<Rightarrow> dict \<Rightarrow> py_error + verdict" where
  "OccupancyValidator_evaluate L flds rule context =
     bind_res (resolve flds (PDict context) ''los'' ''property_will_be'') (\<lambda>prop.
       let dets = PDict [(''property_will_be'', prop)] in
       if prop = PNone \<or> prop = PStr [] then Inr (not_applicable_result rule PNone)
       else if norm_text L prop \<noteq> ''primary'' then Inr (alert_result rule PNone dets)
       else Inr (pass_result rule dets))"

definition SecondHomeValidator_evaluate :: "pylib \<Rightarrow> fields \<Rightarrow> dict \<Rightarrow> dict \<Rightarrow> py_error + verdict" where
  "SecondHomeValidator_evaluate L flds rule context =
     bind_res (resolve flds (PDict context) ''los'' ''no_units'') (\<lambda>no_units.
       let dets = PDict [(''no_units'', no_units)] in
       case py_int L no_units of
         None \<Rightarrow> Inr (not_applicable_result rule PNone)
       | Some n \<Rightarrow>
           if n \<noteq> 1 then Inr (alert_result rule PNone dets) else Inr (pass_result rule dets))"

definition InvestmentValidator_evaluate :: "pylib \<Rightarrow> fields \<Rightarrow> dict \<Rightarrow> dict \<Rightarrow> py_error + verdict" where
  "InvestmentValidator_evaluate L flds rule context =
     bind_res (resolve flds (PDict context) ''los'' ''loan_program_detail'') (\<lambda>loan_prog.
     bind_res (resolve flds (PDict context) ''los'' ''property_type'') (\<lambda>prop_type.
       let dets = PDict [(''loan_program_detail'', loan_prog), (''property_type'', prop_type)] in
       if truthy loan_prog \<and> contains_str ''manufactured'' (lower (py_str L loan_prog))
       then Inr (alert_result rule PNone dets)
       else if truthy prop_type \<and> contains_str ''manufactured'' (lower (py_str L prop_type))
       then Inr (alert_result rule PNone dets)
       else Inr (pass_result rule dets)))"

definition CreditScoreValidator_evaluate :: "pylib \<Rightarrow> fields \<Rightarrow> dict \<Rightarrow> dict \<Rightarrow> py_error + verdict" where
  "CreditScoreValidator_evaluate L flds rule context =
     bind_res (resolve flds (PDict context) ''los'' ''average_representative_credit_score'') (\<lambda>score.
       let dets = PDict [(''score'', score)] in
       case py_float L score of
         None \<Rightarrow> Inr (not_applicable_result rule PNone)
       | Some s \<Rightarrow>
           if s \<le> 620 then Inr (alert_result rule PNone dets) else Inr (pass_result rule dets))"

definition GiftValidator_evaluate :: "pylib \<Rightarrow> fields \<Rightarrow> dict \<Rightarrow> dict \<Rightarrow> py_error + verdict" where
  "GiftValidator_evaluate L flds rule context =
     bind_res (resolve flds (PDict context) ''los'' ''gift_amount'') (\<lambda>gift_amount.
     bind_res (resolve flds (PDict context) ''los'' ''cash_to_borrower'') (\<lambda>cash_to.
       let dets = PDict [(''gift_amount'', gift_amount)] in
       bind_res (resolve flds (PDict context) ''los'' ''loan_program_detail'') (\<lambda>loan_program_detail.
         let g = (if gift_amount \<noteq> PNone
                  then (case py_float L gift_amount of None \<Rightarrow> 0 | Some x \<Rightarrow> x) else 0)
         in if 0 < g then Inr (alert_result rule (dict_get rule ''alert_message'' PNone) dets)
            else Inr (pass_result rule dets))))"

text \<open>\<^verbatim>\<open>d[k] = v\<close> and \<^verbatim>\<open>d.update({...})\<close> on a dictionary kept in insertion order.\<close>

fun dict_set :: "dict \<Rightarrow> string \<Rightarrow> pyval \<Rightarrow> dict" where
  "dict_set [] k v = [(k, v)]"
| "dict_set ((k', v') # d) k v = (if k' = k then (k', v) # d else (k', v') # dict_set d k v)"

definition dict_update :: "dict \<Rightarrow> dict \<Rightarrow> dict" where
  "dict_update d kvs = foldl (\<lambda>acc (k, v). dict_set acc k v) d kvs"

text \<open>
  The loop of \<^verbatim>\<open>CashoutSeasoningValidator\<close> over the tradelines: the tradeline it stops at
  (\<open>PNone\<close> when it runs to the end) and the details as updated on the way. The four
  \<^verbatim>\<open>t.get\<close> raise alike, on a tradeline that is not a dictionary.
\<close>

fun match_tradeline ::
  "pylib \<Rightarrow> string \<Rightarrow> pyval \<Rightarrow> dict \<Rightarrow> pyval list \<Rightarrow> py_error + (pyval \<times> dict)" where
  "match_tradeline L l4 liabilities_name dets [] = Inr (PNone, dets)"
| "match_tradeline L l4 liabilities_name dets (t # ts) =
     bind_res (py_get t ''Creditor Account Number'' PNone) (\<lambda>a1.
     bind_res (py_get t ''Creditor_Account_Number'' PNone) (\<lambda>a2.
     bind_res (py_get t ''Creditor Name'' PNone) (\<lambda>n1.
     bind_res (py_get t ''Creditor_Name'' PNone) (\<lambda>n2.
       let acc_no = py_or (py_or a1 a2) (PStr []);
           acc_last4 = (if truthy acc_no then last4 (py_str L acc_no) else []);
           creditor_name = py_or (py_or n1 n2) (PStr [])
       in if l4 \<noteq> [] \<and> acc_last4 \<noteq> [] \<and> l4 = acc_last4 then
            let score = fuzzy_ratio L creditor_name liabilities_name;
                dets' = dict_update dets
                  [(''matched_account_last4'', PStr acc_last4),
                   (''creditor_name'', creditor_name),
                   (''fuzzy_score'', PInt score)]
            in if 70 \<le> score then Inr (t, dets')
               else match_tradeline L l4 liabilities_name dets' ts
          else match_tradeline L l4 liabilities_name dets ts))))"

text \<open>What \<^verbatim>\<open>for t in tradelines\<close> runs over: a dictionary stands for the list of itself.\<close>

definition tradeline_items :: "pyval \<Rightarrow> py_error + pyval list" where
  "tradeline_items raw = (if is_dict raw then Inr [raw] else py_iter raw)"

definition not_reported :: string where
  "not_reported = ''The mortgage being paid off is not reported on credit report  please review reasoning requirement.''"

definition seasoning_not_met :: string where
  "seasoning_not_met = ''The seasoning requirement for cash out refinance is not met, review and proceed''"

definition CashoutSeasoningValidator_evaluate ::
  "pylib \<Rightarrow> fields \<Rightarrow> dict \<Rightarrow> dict \<Rightarrow> py_error + verdict" where
  "CashoutSeasoningValidator_evaluate L flds rule context =
     bind_res (resolve flds (PDict context) ''los'' ''liabilities_account_number'') (\<lambda>r1.
     bind_res (resolve flds (PDict context) ''los'' ''liabilities_name'') (\<lambda>r2.
     bind_res (resolve flds (PDict context) ''los'' ''estimated_closing_date'') (\<lambda>est_close.
       let liabilities_acc = py_or r1 (PStr []);
           liabilities_name = py_or r2 (PStr []);
           dets = [(''liabilities_account_number'', liabilities_acc),
                   (''liabilities_name'', liabilities_name),
                   (''estimated_closing_date'', est_close)]
       in bind_res (py_get (dict_get context ''credit_report'' (PDict [])) ''Tradelines'' PNone)
         (\<lambda>tradelines_raw.
           if \<not> truthy tradelines_raw then Inr (not_applicable_result rule PNone)
           else bind_res (tradeline_items tradelines_raw) (\<lambda>tradelines.
             let l4 = (if truthy liabilities_acc then last4 (py_str L liabilities_acc) else [])
             in bind_res (match_tradeline L l4 liabilities_name dets tradelines) (\<lambda>(matched, dets').
               if \<not> truthy matched
               then Inr (alert_result rule (PStr not_reported) (PDict dets'))
               else bind_res (py_get matched ''Date_Opened'' PNone) (\<lambda>date_opened.
                 if \<not> truthy date_opened \<or> \<not> truthy est_close
                 then Inr (not_applicable_result rule PNone)
                 else (case parse_date L date_opened of
                   None \<Rightarrow> Inr (not_applicable_result rule PNone)
                 | Some d_open \<Rightarrow>
                     (case parse_date L est_close of
                        None \<Rightarrow> Inr (not_applicable_result rule PNone)
                      | Some d_close \<Rightarrow>
                          bind_res (months_between L (PDate d_open) (PDate d_close)) (\<lambda>months.
                            if months \<le> 12
                            then Inr (alert_result rule (PStr seasoning_not_met) (PDict dets'))
                            else Inr (pass_result rule (PDict dets'))))))))))))"

text \<open>
  \<^verbatim>\<open>try: months = months_between(parse_date(a), parse_date(b))\<close> with its \<^verbatim>\<open>except\<close>: \<open>None\<close> when
  the call raises.
\<close>

definition try_months :: "pylib \<Rightarrow> pyval \<Rightarrow> pyval \<Rightarrow> int option" where
  "try_months L a b =
     (case months_between L (date_val (parse_date L a)) (date_val (parse_date L b)) of
        Inl e \<Rightarrow> None
      | Inr m \<Rightarrow> Some m)"

definition TitleValidator_evaluate :: "pylib \<Rightarrow> fields \<Rightarrow> dict \<Rightarrow> dict \<Rightarrow> py_error + verdict" where
  "TitleValidator_evaluate L flds rule context =
     bind_res (resolve flds (PDict context) ''title'' ''chain_title_date'') (\<lambda>chain_date.
     bind_res (resolve flds (PDict context) ''los'' ''estimated_closing_date'') (\<lambda>est_close.
       let dets = PDict [(''chain_title_date'', chain_date), (''estimated_closing_date'', est_close)] in
       if \<not> truthy chain_date \<or> \<not> truthy est_close then Inr (not_applicable_result rule PNone)
       else case try_months L chain_date est_close of
         None \<Rightarrow> Inr (not_applicable_result rule PNone)
       | Some months \<Rightarrow>
           bind_res (rule_param rule ''min_months'' (PInt 6)) (\<lambda>lim.
           bind_res (py_lt (of_int months) lim) (\<lambda>b.
             if b then Inr (alert_result rule PNone dets) else Inr (pass_result rule dets)))))"

text \<open>
  \<^verbatim>\<open>FraudValidator\<close>: the address gate, then the decision on the two dates. (The two \<^verbatim>\<open>print\<close>
  calls write to standard output and do not reach the verdict.)
\<close>

definition address_differs ::
  "pylib \<Rightarrow> pyval \<Rightarrow> pyval \<Rightarrow> pyval \<Rightarrow> pyval \<Rightarrow> pyval \<Rightarrow> pyval \<Rightarrow> pyval \<Rightarrow> pyval \<Rightarrow> bool" where
  "address_differs L dr_street dr_city dr_state dr_unit subj_street subj_city subj_state subj_unit =
     (normalize_string L dr_street \<noteq> normalize_string L subj_street \<or>
      normalize_string L dr_city \<noteq> normalize_string L subj_city \<or>
      normalize_string L dr_state \<noteq> normalize_string L subj_state \<or>
      normalize_string L dr_unit \<noteq> normalize_string L subj_unit)"

definition fraud_dates :: "pylib \<Rightarrow> dict \<Rightarrow> pyval \<Rightarrow> pyval \<Rightarrow> pyval \<Rightarrow> py_error + verdict" where
  "fraud_dates L rule dets fraud_date est_close =
     (if \<not> truthy fraud_date \<or> \<not> truthy est_close then Inr (not_applicable_result rule PNone)
      else case try_months L fraud_date est_close of
        None \<Rightarrow> Inr (not_applicable_result rule PNone)
      | Some months \<Rightarrow>
          bind_res (rule_param rule ''max_months'' (PInt 6)) (\<lambda>lim.
          bind_res (py_lt (of_int months) lim) (\<lambda>b.
            if b then Inr (alert_result rule PNone dets) else Inr (pass_result rule dets))))"

definition FraudValidator_evaluate :: "pylib \<Rightarrow> fields \<Rightarrow> dict \<Rightarrow> dict \<Rightarrow> py_error + verdict" where
  "FraudValidator_evaluate L flds rule context =
     bind_res (resolve flds (PDict context) ''los'' ''estimated_closing_date'') (\<lambda>est_close.
     bind_res (resolve flds (PDict context) ''drive_report'' ''drive_street'') (\<lambda>dr_street.
     bind_res (resolve flds (PDict context) ''drive_report'' ''drive_city'') (\<lambda>dr_city.
     bind_res (resolve flds (PDict context) ''drive_report'' ''drive_state'') (\<lambda>dr_state.
     bind_res (resolve flds (PDict context) ''drive_report'' ''drive_unit'') (\<lambda>dr_unit.
     bind_res (resolve flds (PDict context) ''los'' ''urla_lender_subject_street'') (\<lambda>subj_street.
     bind_res (resolve flds (PDict context) ''los'' ''urla_lender_subject_city'') (\<lambda>subj_city.
     bind_res (resolve flds (PDict context) ''los'' ''urla_lender_subject_state'') (\<lambda>subj_state.
     bind_res (resolve flds (PDict context) ''los'' ''urla_lender_subject_unit'') (\<lambda>subj_unit.
       let dets = PDict
             [(''drive_addr'', PDict [(''street'', dr_street), (''city'', dr_city),
                                      (''state'', dr_state), (''unit'', dr_unit)]),
              (''subject_addr'', PDict [(''street'', subj_street), (''city'', subj_city),
                                        (''state'', subj_state), (''unit'', subj_unit)])]
       in if address_differs L dr_street dr_city dr_state dr_unit
               subj_street subj_city subj_state subj_unit
          then Inr (not_applicable_result rule PNone)
          else bind_res (resolve flds (PDict context) ''drive_report'' ''fraud_recorded_date'')
                 (\<lambda>fraud_date. fraud_dates L rule dets fraud_date est_close))))))))))"

definition AppraisalPriorSaleValidator_evaluate ::
  "pylib \<Rightarrow> fields \<Rightarrow> dict \<Rightarrow> dict \<Rightarrow> py_error + verdict" where
  "AppraisalPriorSaleValidator_evaluate L flds rule context =
     bind_res (resolve flds (PDict context) ''appraisal'' ''prior_sale_date'') (\<lambda>prior_sale.
     bind_res (resolve flds (PDict context) ''los'' ''estimated_closing_date'') (\<lambda>est_close.
       let dets = PDict [(''prior_sale_date'', prior_sale), (''estimated_closing_date'', est_close)] in
       if \<not> truthy prior_sale \<or> \<not> truthy est_close then Inr (not_applicable_result rule PNone)
       else case try_months L prior_sale est_close of
         None \<Rightarrow> Inr (not_applicable_result rule PNone)
       | Some months \<Rightarrow>
           bind_res (rule_param rule ''min_months'' (PInt 6)) (\<lambda>lim.
           bind_res (py_lt (of_int months) lim) (\<lambda>b.
             if b then Inr (alert_result rule PNone dets) else Inr (pass_result rule dets)))))"

definition LoanProgramValidator_evaluate ::
  "pylib \<Rightarrow> fields \<Rightarrow> dict \<Rightarrow> dict \<Rightarrow> py_error + verdict" where
  "LoanProgramValidator_evaluate L flds rule context =
     bind_res (resolve flds (PDict context) ''los'' ''amortization_type'') (\<lambda>amort.
       let dets = PDict [(''amortization_type'', amort)] in
       if \<not> truthy amort then Inr (not_applicable_result rule PNone)
       else if norm_text L amort \<notin> set [''fixed rate'', ''fixed'']
       then Inr (alert_result rule PNone dets)
       else Inr (pass_result rule dets))"

text \<open>One round of the loop of \<^verbatim>\<open>CashbackValidator\<close> over \<^verbatim>\<open>[cash_from, cash_to]\<close>.\<close>

definition neg_amount :: "pylib \<Rightarrow> pyval \<Rightarrow> real list" where
  "neg_amount L v =
     (if v = PNone then []
      else case py_float L v of
        None \<Rightarrow> []
      | Some val \<Rightarrow> if val < 0 then [\<bar>val\<bar>] else [])"

definition CashbackValidator_evaluate :: "pylib \<Rightarrow> fields \<Rightarrow> dict \<Rightarrow> dict \<Rightarrow> py_error + verdict" where
  "CashbackValidator_evaluate L flds rule context =
     bind_res (resolve flds (PDict context) ''los'' ''cash_from_borrower'') (\<lambda>cash_from.
     bind_res (resolve flds (PDict context) ''los'' ''cash_to_borrower'') (\<lambda>cash_to.
     bind_res (resolve flds (PDict context) ''los'' ''loan_amount'') (\<lambda>loan_amount.
       let dets = PDict [(''cash_from'', cash_from), (''cash_to'', cash_to),
                         (''loan_amount'', loan_amount)] in
       case py_float L loan_amount of
         None \<Rightarrow> Inr (not_applicable_result rule PNone)
       | Some loan \<Rightarrow>
           let negs = neg_amount L cash_from @ neg_amount L cash_to in
           if negs = [] then Inr (not_applicable_result rule dets)
           else bind_res (rule_param rule ''absolute_limit'' (PInt 2000)) (\<lambda>absolute_limit.
                bind_res (rule_param rule ''percent_limit'' (PFloat (1 / 100))) (\<lambda>percent_limit.
                  case num_val percent_limit of
                    None \<Rightarrow> Inl TypeError
                  | Some p \<Rightarrow>
                      (case num_val absolute_limit of
                         None \<Rightarrow> Inl TypeError
                       | Some a \<Rightarrow>
                           let max_allowed = (if loan * p < a then loan * p else a) in
                           if list_ex (\<lambda>amt. max_allowed < amt) negs
                           then Inr (alert_result rule PNone dets)
                           else Inr (pass_result rule dets)))))))"

definition affirmative :: "pylib \<Rightarrow> pyval \<Rightarrow> bool" where
  "affirmative L cert = (truthy cert \<and> norm_text L cert \<in> set [''yes'', ''y'', ''true''])"

definition HomebuyerProgramValidator_evaluate ::
  "pylib \<Rightarrow> fields \<Rightarrow> dict \<Rightarrow> dict \<Rightarrow> py_error + verdict" where
  "HomebuyerProgramValidator_evaluate L flds rule context =
     bind_res (resolve flds (PDict context) ''los'' ''homebuyer_education_certificate'') (\<lambda>cert.
       let dets = PDict [(''homebuyer_education_certificate'', cert)] in
       if affirmative L cert then Inr (pass_result rule dets)
       else Inr (condition_result rule (dict_get rule ''condition_message'' PNone) dets))"

definition HomebuyerLTVValidator_evaluate ::
  "pylib \<Rightarrow> fields \<Rightarrow> dict \<Rightarrow> dict \<Rightarrow> py_error + verdict" where
  "HomebuyerLTVValidator_evaluate L flds rule context =
     bind_res (resolve flds (PDict context) ''los'' ''ltv'') (\<lambda>ltv.
     bind_res (resolve flds (PDict context) ''los'' ''homebuyer_education_certificate'') (\<lambda>cert.
       let dets = PDict [(''ltv'', ltv), (''homebuyer_education_certificate'', cert)] in
       case py_float L ltv of
         None \<Rightarrow> Inr (not_applicable_result rule PNone)
       | Some v \<Rightarrow>
           let lp = (if v \<le> 1 then v * 100 else v) in
           bind_res (rule_param rule ''max_ltv'' (PInt 95)) (\<lambda>max_ltv.
           bind_res (py_gt lp max_ltv) (\<lambda>b.
             if b then
               (if affirmative L cert then Inr (pass_result rule dets)
                else Inr (condition_result rule (dict_get rule ''condition_message'' PNone) dets))
             else Inr (pass_result rule dets)))))"

definition IncomeValidator_evaluate :: "pylib \<Rightarrow> fields \<Rightarrow> dict \<Rightarrow> dict \<Rightarrow> py_error + verdict" where
  "IncomeValidator_evaluate L flds rule context =
     bind_res (resolve flds (PDict context) ''los'' ''total_income'') (\<lambda>income.
     bind_res (resolve flds (PDict context) ''los'' ''area_median_income'') (\<lambda>r.
     bind_res (if truthy r then Inr r else rule_param rule ''area_median_income'' PNone) (\<lambda>ami.
       let dets = PDict [(''total_income'', income), (''area_median_income'', ami)] in
       case py_float L income of
         None \<Rightarrow> Inr (not_applicable_result rule PNone)
       | Some inc \<Rightarrow>
           (case py_float L ami of
              None \<Rightarrow> Inr (not_applicable_result rule PNone)
            | Some ami_v \<Rightarrow>
                if ami_v < inc then Inr (alert_result rule PNone dets)
                else Inr (pass_result rule dets)))))"

definition LienPayoffValidator_evaluate ::
  "pylib \<Rightarrow> fields \<Rightarrow> dict \<Rightarrow> dict \<Rightarrow> py_error + verdict" where
  "LienPayoffValidator_evaluate L flds rule context =
     bind_res (resolve flds (PDict context) ''los'' ''liabilities_will_be_paid_off'') (\<lambda>paid_off.
     bind_res (resolve flds (PDict context) ''los'' ''liabilities_account_type'') (\<lambda>acc_type.
     bind_res (resolve flds (PDict context) ''los'' ''liabilities_name'') (\<lambda>r.
       let liab_names = py_or r (PStr []);
           dets = PDict [(''paid_off'', paid_off), (''account_type'', acc_type),
                         (''liabilities_name'', liab_names)]
       in if norm_text L paid_off \<in> set [''yes'', ''true''] then
            let count = (case liab_names of
                           PStr s \<Rightarrow>
                             if strip s \<noteq> []
                             then length (filter (\<lambda>x. strip x \<noteq> []) (split_on (CHR '','') s))
                             else 0
                         | _ \<Rightarrow> 0)
            in if 1 < count then Inr (alert_result rule PNone dets)
               else if \<not> truthy acc_type \<or> \<not> contains_str ''mortgage'' (lower (py_str L acc_type))
               then Inr (alert_result rule PNone dets)
               else Inr (pass_result rule dets)
          else Inr (pass_result rule dets))))"

section \<open>Trigger engine\<close>

text \<open>\<^verbatim>\<open>RuleDispatcher._norm\<close> and \<^verbatim>\<open>RuleDispatcher._match_value\<close>.\<close>

definition norm_val :: "pylib \<Rightarrow> pyval \<Rightarrow> string" where
  "norm_val L v = (if v \<noteq> PNone then lower (strip (py_str L v)) else [])"

definition match_value :: "pylib \<Rightarrow> pyval \<Rightarrow> pyval \<Rightarrow> bool" where
  "match_value L actual expected =
     (case expected of
        PStr e \<Rightarrow>
          if startswith e ''GT'' then
            (case py_float L actual of
               None \<Rightarrow> False
             | Some v \<Rightarrow>
                 (case float_of_str L (drop 2 e) of
                    None \<Rightarrow> False
                  | Some t \<Rightarrow> t < (if v \<le> 1 then v * 100 else v)))
          else norm_val L actual = norm_val L expected
      | _ \<Rightarrow> norm_val L actual = norm_val L expected)"

text \<open>
  \<^verbatim>\<open>RuleDispatcher._match_trigger\<close>. \<open>match_trigger\<close> is the call on a trigger value (only a
  dictionary has \<^verbatim>\<open>items\<close>), \<open>match_items\<close> the \<^verbatim>\<open>for\<close> loop over its entries in order, and
  \<open>any_trigger\<close> the \<^verbatim>\<open>any(...)\<close> over the sub-triggers of an \<^verbatim>\<open>"or"\<close> entry, which stops at the
  first that matches. Under \<^verbatim>\<open>"or"\<close>, a value that is not a list is run over as Python does:
  the first character of a string, or the first key of a dictionary, is a string and has no
  \<^verbatim>\<open>items\<close>; any other value is not iterable.
\<close>

fun match_trigger :: "pylib \<Rightarrow> fields \<Rightarrow> dict \<Rightarrow> pyval \<Rightarrow> py_error + bool"
  and match_items :: "pylib \<Rightarrow> fields \<Rightarrow> dict \<Rightarrow> dict \<Rightarrow> py_error + bool"
  and any_trigger :: "pylib \<Rightarrow> fields \<Rightarrow> dict \<Rightarrow> pyval list \<Rightarrow> py_error + bool" where
  "match_trigger L flds context (PDict kvs) = match_items L flds context kvs"
| "match_trigger L flds context PNone = Inl AttributeError"
| "match_trigger L flds context (PBool b) = Inl AttributeError"
| "match_trigger L flds context (PInt i) = Inl AttributeError"
| "match_trigger L flds context (PFloat x) = Inl AttributeError"
| "match_trigger L flds context (PStr s) = Inl AttributeError"
| "match_trigger L flds context (PDate d) = Inl AttributeError"
| "match_trigger L flds context (PList xs) = Inl AttributeError"
| "match_items L flds context [] = Inr True"
| "match_items L flds context ((key, expected_list) # rest) =
     (if key = ''or'' then
        (case expected_list of
           PList xs \<Rightarrow> any_trigger L flds context xs
         | PStr s \<Rightarrow> if s = [] then Inr False else Inl AttributeError
         | PDict d \<Rightarrow> if d = [] then Inr False else Inl AttributeError
         | _ \<Rightarrow> Inl TypeError)
      else
        bind_res (resolve flds (PDict context) ''los'' key) (\<lambda>actual.
        bind_res (py_iter expected_list) (\<lambda>exps.
          if \<not> list_ex (match_value L actual) exps then Inr False
          else match_items L flds context rest)))"
| "any_trigger L flds context [] = Inr False"
| "any_trigger L flds context (x # xs) =
     bind_res (match_trigger L flds context x) (\<lambda>m.
       if m then Inr True else any_trigger L flds context xs)"

section \<open>Rule dispatcher\<close>

type_synonym validator = "pylib \<Rightarrow> fields \<Rightarrow> dict \<Rightarrow> dict \<Rightarrow> py_error + verdict"

text \<open>The registry \<^verbatim>\<open>self.validators\<close> built by \<^verbatim>\<open>RuleDispatcher.__init__\<close>.\<close>

definition validators :: "(string \<times> validator) list" where
  "validators =
     [(''LTVValidator'', LTVValidator_evaluate),
      (''DTIValidator'', DTIValidator_evaluate),
      (''OccupancyValidator'', OccupancyValidator_evaluate),
      (''SecondHomeValidator'', SecondHomeValidator_evaluate),
      (''InvestmentValidator'', InvestmentValidator_evaluate),
      (''CreditScoreValidator'', CreditScoreValidator_evaluate),
      (''GiftValidator'', GiftValidator_evaluate),
      (''CashoutSeasoningValidator'', CashoutSeasoningValidator_evaluate),
      (''TitleValidator'', TitleValidator_evaluate),
      (''FraudValidator'', FraudValidator_evaluate),
      (''AppraisalPriorSaleValidator'', AppraisalPriorSaleValidator_evaluate),
      (''LoanProgramValidator'', LoanProgramValidator_evaluate),
      (''CashbackValidator'', CashbackValidator_evaluate),
      (''HomebuyerProgramValidator'', HomebuyerProgramValidator_evaluate),
      (''HomebuyerLTVValidator'', HomebuyerLTVValidator_evaluate),
      (''IncomeValidator'', IncomeValidator_evaluate),
      (''LienPayoffValidator'', LienPayoffValidator_evaluate)]"

text \<open>
  A dictionary key must be hashable, and numbers are one key when they are equal
  (\<^verbatim>\<open>1\<close>, \<^verbatim>\<open>1.0\<close> and \<^verbatim>\<open>True\<close>).
\<close>

fun hashable :: "pyval \<Rightarrow> bool" where
  "hashable (PList xs) = False"
| "hashable (PDict d) = False"
| "hashable v = True"

definition key_eq :: "pyval \<Rightarrow> pyval \<Rightarrow> bool" where
  "key_eq a b =
     (case num_val a of
        Some x \<Rightarrow> (case num_val b of Some y \<Rightarrow> x = y | None \<Rightarrow> False)
      | None \<Rightarrow> (case num_val b of Some y \<Rightarrow> False | None \<Rightarrow> a = b))"

text \<open>\<^verbatim>\<open>self.validators.get(name)\<close> for the value \<^verbatim>\<open>rule["validator"]\<close>.\<close>

definition validators_get :: "pyval \<Rightarrow> py_error + validator option" where
  "validators_get name =
     (if \<not> hashable name then Inl TypeError
      else case name of PStr s \<Rightarrow> Inr (map_of validators s) | _ \<Rightarrow> Inr None)"

text \<open>\<^verbatim>\<open>results[key] = v\<close> on the mapping from rule identifier to verdict.\<close>

fun results_set :: "(pyval \<times> verdict) list \<Rightarrow> pyval \<Rightarrow> verdict \<Rightarrow> (pyval \<times> verdict) list" where
  "results_set [] k v = [(k, v)]"
| "results_set ((k', v') # rest) k v =
     (if key_eq k' k then (k', v) # rest else (k', v') # results_set rest k v)"

text \<open>
  \<^verbatim>\<open>RuleDispatcher.evaluate\<close>: the loop over \<^verbatim>\<open>self.rules\<close> with the results so far. In
  \<^verbatim>\<open>results[rule["id"]] = ...\<close> Python evaluates the right-hand side before the key.
\<close>

fun evaluate_loop ::
  "pylib \<Rightarrow> fields \<Rightarrow> dict \<Rightarrow> (pyval \<times> verdict) list \<Rightarrow> dict list
     \<Rightarrow> py_error + (pyval \<times> verdict) list" where
  "evaluate_loop L flds context results [] = Inr results"
| "evaluate_loop L flds context results (rule # rules) =
     bind_res (py_getitem (PDict rule) ''validator'') (\<lambda>name.
     bind_res (validators_get name) (\<lambda>validator.
       case validator of
         None \<Rightarrow> evaluate_loop L flds context results rules
       | Some ev \<Rightarrow>
           bind_res (match_trigger L flds context (dict_get rule ''trigger'' (PDict []))) (\<lambda>m.
           bind_res (if \<not> m then Inr (not_applicable_result rule PNone)
                     else ev L flds rule context) (\<lambda>v.
           bind_res (py_getitem (PDict rule) ''id'') (\<lambda>rid.
             if \<not> hashable rid then Inl TypeError
             else evaluate_loop L flds context (results_set results rid v) rules)))))"

definition evaluate :: "pylib \<Rightarrow> fields \<Rightarrow> dict list \<Rightarrow> dict \<Rightarrow> py_error + (pyval \<times> verdict) list" where
  "evaluate L flds rules context = evaluate_loop L flds context [] rules"

section \<open>Specification-level definitions\<close>

text \<open>
  The walk of the resolver as the specification words it: descending a dotted path misses
  (\<open>None\<close>) at a segment where the value is not a mapping or lacks the key.
\<close>

fun descend :: "pyval \<Rightarrow> string list \<Rightarrow> pyval option" where
  "descend cur [] = Some cur"
| "descend (PDict d) (part # parts) =
     (case map_of d part of None \<Rightarrow> None | Some v \<Rightarrow> descend v parts)"
| "descend cur (part # parts) = None"

text \<open>Percent coercion as the specification words it: scaled when the magnitude is at most 1.\<close>

definition to_percent_spec :: "real \<Rightarrow> real" where
  "to_percent_spec x = (if \<bar>x\<bar> \<le> 1 then x * 100 else x)"

text \<open>A rule whose validator name has an implementation in the registry.\<close>

definition registered :: "dict \<Rightarrow> bool" where
  "registered r = (\<exists>name ev. py_getitem (PDict r) ''validator'' = Inr name
                      \<and> validators_get name = Inr (Some ev))"

text \<open>The status of a verdict, and of every verdict of an output mapping.\<close>

definition result_status :: "py_error + verdict \<Rightarrow> py_error + verdict_status" where
  "result_status r = (case r of Inl e \<Rightarrow> Inl e | Inr v \<Rightarrow> Inr (status v))"

definition statuses ::
  "py_error + (pyval \<times> verdict) list \<Rightarrow> py_error + (pyval \<times> verdict_status) list" where
  "statuses r =
     (case r of Inl e \<Rightarrow> Inl e | Inr out \<Rightarrow> Inr (map (\<lambda>kv. (fst kv, status (snd kv))) out))"












section \<open>Sample data\<close>

text \<open>
  A library instance for the worked examples, with the clock as its argument: no string
  parses as a date or a number, and two equal strings score 100. The examples give dates as
  datetime values and numbers as numbers, and call the library only where the real one
  answers the same: on the string \<^verbatim>\<open>TBD\<close>, which no format of \<^verbatim>\<open>SUPPORTED_FORMATS\<close> and no
  free-text parser reads as a date, and on the similarity of a string to itself.
\<close>

definition sample_lib :: "datetime \<Rightarrow> pylib" where
  "sample_lib t =
     \<lparr>strptime = (\<lambda>v fmt. None), dateutil_parse = (\<lambda>v. None), float_of_str = (\<lambda>s. None),
      int_of_str = (\<lambda>s. None), token_set_ratio = (\<lambda>a b. if a = b then 100 else 0),
      str_other = (\<lambda>v. []), now = t\<rparr>"

definition sample_fields :: fields where
  "sample_fields =
     PDict [(''los'',
              PDict [(''ltv'', PDict [(''path'', PStr ''loan.ltv''), (''default'', PInt 0)]),
                     (''dti'', PDict [(''path'', PStr ''dti'')])])]"

definition purpose_fields :: fields where
  "purpose_fields =
     PDict [(''los'',
              PDict [(''purpose_of_loan'', PDict [(''path'', PStr ''purpose'')]),
                     (''property_will_be'', PDict [(''path'', PStr ''occupancy'')])])]"

definition refinance_context :: dict where
  "refinance_context =
     [(''los'', PDict [(''purpose'', PStr ''Refinance''), (''occupancy'', PStr ''Primary'')])]"

definition occupancy_rule :: dict where
  "occupancy_rule =
     [(''id'', PStr ''OCC-1''), (''validator'', PStr ''OccupancyValidator''),
      (''alert_message'', PStr ''Property is not a primary residence'')]"

definition unknown_rule :: dict where
  "unknown_rule =
     [(''id'', PStr ''RISK-1''), (''validator'', PStr ''RiskValidator''),
      (''trigger'', PDict [(''purpose_of_loan'', PList [PStr ''Refinance''])])]"

definition fraud_fields :: fields where
  "fraud_fields =
     PDict [(''los'',
              PDict [(''estimated_closing_date'', PDict [(''path'', PStr ''closing.estimated'')]),
                     (''urla_lender_subject_street'', PDict [(''path'', PStr ''property.street'')]),
                     (''urla_lender_subject_city'', PDict [(''path'', PStr ''property.city'')]),
                     (''urla_lender_subject_state'', PDict [(''path'', PStr ''property.state'')]),
                     (''urla_lender_subject_unit'', PDict [(''path'', PStr ''property.unit'')])]),
            (''drive_report'',
              PDict [(''drive_street'', PDict [(''path'', PStr ''address.street'')]),
                     (''drive_city'', PDict [(''path'', PStr ''address.city'')]),
                     (''drive_state'', PDict [(''path'', PStr ''address.state'')]),
                     (''drive_unit'', PDict [(''path'', PStr ''address.unit'')]),
                     (''fraud_recorded_date'', PDict [(''path'', PStr ''fraud.recorded'')])])]"

definition fraud_rule :: dict where
  "fraud_rule =
     [(''id'', PStr ''FRAUD-1''), (''validator'', PStr ''FraudValidator''),
      (''params'', PDict [(''max_months'', PInt 6)]),
      (''alert_message'', PStr ''Recent fraud record on the subject property'')]"

text \<open>
  A loan whose estimated closing date is the text \<^verbatim>\<open>TBD\<close>, with a fraud record of
  10 January 2024 at the same address.
\<close>

definition tbd_context :: dict where
  "tbd_context =
     [(''los'', PDict [(''closing'', PDict [(''estimated'', PStr ''TBD'')]),
                       (''property'', PDict [(''street'', PStr ''12 Main St.''),
                                             (''city'', PStr ''Austin''),
                                             (''state'', PStr ''TX'')])]),
      (''drive_report'', PDict [(''address'', PDict [(''street'', PStr ''12 MAIN ST''),
                                                     (''city'', PStr ''austin''),
                                                     (''state'', PStr ''tx'')]),
                                (''fraud'', PDict [(''recorded'', PDate (Datetime 2024 1 10))])])]"









section \<open>Helper lemmas\<close>

lemmas eval_simps = bind_res_def resolve_def dict_get_def
  normalize_string_def strip_def isspace_def isalnum_def lower_char_def lower_def
  parse_date_def SUPPORTED_FORMATS_def try_months_def months_between_def date_val_def
  rule_param_def py_lt_def py_gt_def alert_result_def pass_result_def not_applicable_result_def
  py_or_def result_status_def statuses_def

lemma walk_descend:
  "walk cur parts dflt =
     Inr (case descend cur parts of None \<Rightarrow> dflt | Some v \<Rightarrow> if v = PNone then dflt else v)"
proof (induction cur parts rule: descend.induct)
  case (1 cur)
  then show ?case by simp
next
  case (2 d part parts)
  then show ?case by (cases "map_of d part") (simp_all add: bind_res_def)
qed simp_all

lemma evaluate_loop_append:
  "evaluate_loop L flds context results (rs1 @ rs2) =
     bind_res (evaluate_loop L flds context results rs1)
       (\<lambda>res. evaluate_loop L flds context res rs2)"
proof (induction rs1 arbitrary: results)
  case Nil
  then show ?case by (simp add: bind_res_def)
next
  case (Cons r rs1)
  then show ?case
    by (simp add: bind_res_def split: sum.splits option.splits)
qed

lemma evaluate_loop_skip:
  assumes "py_getitem (PDict r) ''validator'' = Inr name" and "validators_get name = Inr None"
  shows "evaluate_loop L flds context results (r # rs) = evaluate_loop L flds context results rs"
  using assms by (simp add: bind_res_def)

lemma results_set_keys:
  "set (map fst (results_set res k v)) \<subseteq> insert k (set (map fst res))"
  by (induction res k v rule: results_set.induct) auto

lemma evaluate_loop_keys:
  "evaluate_loop L flds context results rs = Inr out \<Longrightarrow> k \<in> set (map fst out) \<Longrightarrow>
   k \<in> set (map fst results) \<or>
   (\<exists>r \<in> set rs. registered r \<and> py_getitem (PDict r) ''id'' = Inr k)"
proof (induction rs arbitrary: results)
  case Nil
  then show ?case by simp
next
  case (Cons r rs)
  from Cons.prems(1) obtain name where n: "py_getitem (PDict r) ''validator'' = Inr name"
    by (auto simp: bind_res_def split: sum.splits)
  from Cons.prems(1) n obtain vo where vo: "validators_get name = Inr vo"
    by (auto simp: bind_res_def split: sum.splits)
  show ?case
  proof (cases vo)
    case None
    with Cons.prems n vo have "evaluate_loop L flds context results rs = Inr out"
      by (simp add: bind_res_def)
    from Cons.IH [OF this Cons.prems(2)] show ?thesis by auto
  next
    case (Some ev)
    with Cons.prems(1) n vo obtain v rid where
      rid: "py_getitem (PDict r) ''id'' = Inr rid" and
      rest: "evaluate_loop L flds context (results_set results rid v) rs = Inr out"
      by (auto simp: bind_res_def split: sum.splits if_splits)
    have reg: "registered r" using n vo Some by (auto simp: registered_def)
    from Cons.IH [OF rest Cons.prems(2)] results_set_keys [of results rid v] rid reg
    show ?thesis by auto
  qed
qed








section \<open>Trigger matcher\<close>

text \<open>
  Claim C1: the trigger matcher succeeds only if every key of the mapping matches, also
  when an \<^verbatim>\<open>"or"\<close> key stands beside other keys. The code returns from the loop at the
  \<^verbatim>\<open>"or"\<close> key: with \<^verbatim>\<open>"or"\<close> first and one sub-trigger that matches, the trigger matches
  although the key \<^verbatim>\<open>purpose_of_loan\<close> (expected \<^verbatim>\<open>Purchase\<close>, actual \<^verbatim>\<open>Refinance\<close>) does not;
  that key alone fails, and so does the same mapping with its two keys in the other order.
\<close>

theorem match_trigger_or_first:
  "match_trigger (sample_lib (Datetime 2024 3 1)) purpose_fields refinance_context
     (PDict [(''or'', PList [PDict []]), (''purpose_of_loan'', PList [PStr ''Purchase''])])
     = Inr True
   \<and> match_trigger (sample_lib (Datetime 2024 3 1)) purpose_fields refinance_context
     (PDict [(''purpose_of_loan'', PList [PStr ''Purchase''])]) = Inr False
   \<and> match_trigger (sample_lib (Datetime 2024 3 1)) purpose_fields refinance_context
     (PDict [(''purpose_of_loan'', PList [PStr ''Purchase'']), (''or'', PList [PDict []])])
     = Inr False"
  by (simp add: purpose_fields_def refinance_context_def match_value_def startswith_def
      norm_val_def eval_simps)

section \<open>Field resolver\<close>

text \<open>
  Claim C2, as stated: \<^verbatim>\<open>resolve\<close> never raises for a malformed or missing context. The
  sections below the context are guarded by \<^verbatim>\<open>isinstance(cur, dict)\<close>, the context itself is
  not: \<^verbatim>\<open>context.get(section)\<close> raises \<^verbatim>\<open>AttributeError\<close> on a context that is null, or a list,
  as soon as the field has a path configuration.
\<close>

theorem resolve_missing_context_counterexample:
  "resolve sample_fields PNone ''los'' ''ltv'' = Inl AttributeError
   \<and> resolve sample_fields (PList []) ''los'' ''ltv'' = Inl AttributeError"
  by (simp add: sample_fields_def eval_simps)

text \<open>
  Claim C2, amended. Let the configuration be a mapping of mappings, \<open>cfg\<close> its entry for
  (section, field), null when there is none. With no entry, \<^verbatim>\<open>resolve\<close> returns null, whatever
  the context. With an entry that has a string path, and a context that is a mapping,
  \<^verbatim>\<open>resolve\<close> never raises, whatever the context holds: it returns the configured default
  when the walk along the dotted path misses at some segment (the value there is not a
  mapping, or lacks the key) or ends at a present null, and the value found otherwise. On
  a context that is not a mapping, a configured field raises \<^verbatim>\<open>AttributeError\<close>.
\<close>

theorem resolve_spec:
  assumes "py_get flds section (PDict []) = Inr sec" and "py_get sec name PNone = Inr cfg"
  shows "(\<not> truthy cfg \<longrightarrow> resolve flds context section name = Inr PNone)
       \<and> (\<forall>d p c. cfg = PDict d \<longrightarrow> d \<noteq> [] \<longrightarrow> dict_get d ''path'' PNone = PStr p \<longrightarrow>
            context = PDict c \<longrightarrow>
            resolve flds context section name =
              Inr (case descend (dict_get c section PNone) (split_on (CHR ''.'') p) of
                     None \<Rightarrow> dict_get d ''default'' PNone
                   | Some v \<Rightarrow> if v = PNone then dict_get d ''default'' PNone else v))
       \<and> (truthy cfg \<longrightarrow> \<not> is_dict context \<longrightarrow>
            resolve flds context section name = Inl AttributeError)"
proof -
  have 1: "\<not> truthy cfg \<longrightarrow> resolve flds context section name = Inr PNone"
    using assms by (simp add: resolve_def bind_res_def)
  have 2: "\<forall>d p c. cfg = PDict d \<longrightarrow> d \<noteq> [] \<longrightarrow> dict_get d ''path'' PNone = PStr p \<longrightarrow>
            context = PDict c \<longrightarrow>
            resolve flds context section name =
              Inr (case descend (dict_get c section PNone) (split_on (CHR ''.'') p) of
                     None \<Rightarrow> dict_get d ''default'' PNone
                   | Some v \<Rightarrow> if v = PNone then dict_get d ''default'' PNone else v)"
    using assms by (simp add: resolve_def bind_res_def walk_descend)
  have 3: "truthy cfg \<longrightarrow> \<not> is_dict context \<longrightarrow>
            resolve flds context section name = Inl AttributeError"
    using assms by (cases cfg; cases "context") (simp_all add: resolve_def bind_res_def)
  from 1 2 3 show ?thesis by blast
qed

text \<open>
  The resolver on a field with path \<^verbatim>\<open>loan.ltv\<close> and default 0: the value found, a segment
  that is not a mapping, a present null, a missing section, and a field with no
  configuration.
\<close>

theorem resolve_spec_witness:
  "resolve sample_fields
      (PDict [(''los'', PDict [(''loan'', PDict [(''ltv'', PFloat (95 / 100))])])])
      ''los'' ''ltv'' = Inr (PFloat (95 / 100))
   \<and> resolve sample_fields (PDict [(''los'', PDict [(''loan'', PStr ''n/a'')])]) ''los'' ''ltv''
       = Inr (PInt 0)
   \<and> resolve sample_fields (PDict [(''los'', PDict [(''loan'', PDict [(''ltv'', PNone)])])])
       ''los'' ''ltv'' = Inr (PInt 0)
   \<and> resolve sample_fields (PDict []) ''los'' ''ltv'' = Inr (PInt 0)
   \<and> resolve sample_fields (PDict [(''los'', PNone)]) ''los'' ''cltv'' = Inr PNone
   \<and> resolve sample_fields PNone ''los'' ''cltv'' = Inr PNone"
proof -
  let ?sec = "PDict [(''ltv'', PDict [(''path'', PStr ''loan.ltv''), (''default'', PInt 0)]),
                     (''dti'', PDict [(''path'', PStr ''dti'')])]"
  let ?cfg = "PDict [(''path'', PStr ''loan.ltv''), (''default'', PInt 0)]"
  have s: "py_get sample_fields ''los'' (PDict []) = Inr ?sec"
    by (simp add: sample_fields_def dict_get_def)
  have c: "py_get ?sec ''ltv'' PNone = Inr ?cfg" by (simp add: dict_get_def)
  have u: "py_get ?sec ''cltv'' PNone = Inr PNone" by (simp add: dict_get_def)
  from resolve_spec [OF s c,
         of "PDict [(''los'', PDict [(''loan'', PDict [(''ltv'', PFloat (95 / 100))])])]"]
       resolve_spec [OF s c, of "PDict [(''los'', PDict [(''loan'', PStr ''n/a'')])]"]
       resolve_spec [OF s c, of "PDict [(''los'', PDict [(''loan'', PDict [(''ltv'', PNone)])])]"]
       resolve_spec [OF s c, of "PDict []"]
       resolve_spec [OF s u, of "PDict [(''los'', PNone)]"]
       resolve_spec [OF s u, of PNone]
  show ?thesis by (simp add: dict_get_def)
qed

section \<open>Rule dispatcher\<close>

text \<open>
  Claim C3: a rule whose validator name has no registered implementation is a no-op of the
  dispatcher. Removing the rule from the rule set changes nothing in the outcome, the rule
  alone yields the empty mapping, and every key of the output mapping is the identifier of
  another rule, one whose validator is registered.
\<close>

theorem evaluate_skips_unregistered:
  assumes "py_getitem (PDict r) ''validator'' = Inr name" and "validators_get name = Inr None"
  shows "evaluate L flds (rs1 @ r # rs2) context = evaluate L flds (rs1 @ rs2) context
       \<and> evaluate L flds [r] context = Inr []
       \<and> (\<forall>out k. evaluate L flds (rs1 @ r # rs2) context = Inr out \<longrightarrow>
            k \<in> set (map fst out) \<longrightarrow>
            (\<exists>r' \<in> set (rs1 @ rs2). registered r' \<and> py_getitem (PDict r') ''id'' = Inr k))"
proof -
  have skip: "evaluate_loop L flds context res (r # rs) = evaluate_loop L flds context res rs"
    for res rs by (rule evaluate_loop_skip [OF assms])
  have 1: "evaluate L flds (rs1 @ r # rs2) context = evaluate L flds (rs1 @ rs2) context"
    by (simp only: evaluate_def evaluate_loop_append skip)
  have 2: "evaluate L flds [r] context = Inr []"
    by (simp only: evaluate_def skip evaluate_loop.simps(1))
  have 3: "\<forall>out k. evaluate L flds (rs1 @ r # rs2) context = Inr out \<longrightarrow>
            k \<in> set (map fst out) \<longrightarrow>
            (\<exists>r' \<in> set (rs1 @ rs2). registered r' \<and> py_getitem (PDict r') ''id'' = Inr k)"
  proof (intro allI impI)
    fix out k
    assume a: "evaluate L flds (rs1 @ r # rs2) context = Inr out"
      and b: "k \<in> set (map fst out)"
    from a have "evaluate L flds (rs1 @ rs2) context = Inr out" by (simp only: 1)
    then have "evaluate_loop L flds context [] (rs1 @ rs2) = Inr out"
      by (simp only: evaluate_def)
    from evaluate_loop_keys [OF this b]
    show "\<exists>r' \<in> set (rs1 @ rs2). registered r' \<and> py_getitem (PDict r') ''id'' = Inr k"
      by simp
  qed
  from 1 2 3 show ?thesis by blast
qed

text \<open>
  A rule bound to \<^verbatim>\<open>RiskValidator\<close>, which the registry does not hold, beside the occupancy
  rule: the output is that of the occupancy rule alone, with the single key \<^verbatim>\<open>OCC-1\<close>.
\<close>

theorem evaluate_skips_unregistered_witness:
  "evaluate (sample_lib (Datetime 2024 3 1)) purpose_fields [unknown_rule, occupancy_rule]
      refinance_context
     = evaluate (sample_lib (Datetime 2024 3 1)) purpose_fields [occupancy_rule] refinance_context
   \<and> evaluate (sample_lib (Datetime 2024 3 1)) purpose_fields [unknown_rule] refinance_context
       = Inr []
   \<and> statuses (evaluate (sample_lib (Datetime 2024 3 1)) purpose_fields
        [unknown_rule, occupancy_rule] refinance_context) = Inr [(PStr ''OCC-1'', PASS)]"
proof -
  have h1: "py_getitem (PDict unknown_rule) ''validator'' = Inr (PStr ''RiskValidator'')"
    by (simp add: unknown_rule_def)
  have h2: "validators_get (PStr ''RiskValidator'') = Inr None"
    by (simp add: validators_get_def validators_def)
  have occ: "statuses (evaluate (sample_lib (Datetime 2024 3 1)) purpose_fields
        [occupancy_rule] refinance_context) = Inr [(PStr ''OCC-1'', PASS)]"
    by (simp add: evaluate_def validators_get_def validators_def occupancy_rule_def
        OccupancyValidator_evaluate_def norm_text_def purpose_fields_def refinance_context_def
        eval_simps)
  from evaluate_skips_unregistered [OF h1 h2, of "sample_lib (Datetime 2024 3 1)"
      purpose_fields "[]" "[occupancy_rule]" refinance_context] occ
  show ?thesis by simp
qed

text \<open>
  Claim C4: for a rule whose trigger mapping is empty (or absent) and whose validator name
  is registered, the matcher matches, and the step of the dispatcher for that rule is the
  bound validator's \<^verbatim>\<open>evaluate\<close>, whose verdict is stored under the rule's identifier: the
  rule is never cut short to NOT_APPLICABLE by the matcher.
\<close>

theorem empty_trigger_runs_validator:
  assumes "py_getitem (PDict rule) ''validator'' = Inr name"
    and "validators_get name = Inr (Some ev)"
    and "dict_get rule ''trigger'' (PDict []) = PDict []"
  shows "match_trigger L flds context (dict_get rule ''trigger'' (PDict [])) = Inr True
       \<and> evaluate_loop L flds context results (rule # rules) =
           bind_res (ev L flds rule context) (\<lambda>v.
           bind_res (py_getitem (PDict rule) ''id'') (\<lambda>rid.
             if \<not> hashable rid then Inl TypeError
             else evaluate_loop L flds context (results_set results rid v) rules))"
  using assms by (simp add: bind_res_def)

text \<open>
  The occupancy rule has no trigger: on a loan for a primary residence the dispatcher's
  verdict is the validator's PASS with its details.
\<close>

theorem empty_trigger_runs_validator_witness:
  "evaluate (sample_lib (Datetime 2024 3 1)) purpose_fields [occupancy_rule] refinance_context
     = Inr [(PStr ''OCC-1'',
             \<lparr>rule_id = PStr ''OCC-1'', status = PASS, message = PStr [],
              details = PDict [(''property_will_be'', PStr ''Primary'')]\<rparr>)]"
proof -
  have h1: "py_getitem (PDict occupancy_rule) ''validator'' = Inr (PStr ''OccupancyValidator'')"
    by (simp add: occupancy_rule_def)
  have h2: "validators_get (PStr ''OccupancyValidator'') = Inr (Some OccupancyValidator_evaluate)"
    by (simp add: validators_get_def validators_def)
  have h3: "dict_get occupancy_rule ''trigger'' (PDict []) = PDict []"
    by (simp add: occupancy_rule_def dict_get_def)
  have v: "OccupancyValidator_evaluate (sample_lib (Datetime 2024 3 1)) purpose_fields
             occupancy_rule refinance_context
           = Inr \<lparr>rule_id = PStr ''OCC-1'', status = PASS, message = PStr [],
                  details = PDict [(''property_will_be'', PStr ''Primary'')]\<rparr>"
    by (simp add: OccupancyValidator_evaluate_def norm_text_def occupancy_rule_def
        purpose_fields_def refinance_context_def eval_simps)
  have i: "py_getitem (PDict occupancy_rule) ''id'' = Inr (PStr ''OCC-1'')"
    by (simp add: occupancy_rule_def)
  from empty_trigger_runs_validator [OF h1 h2 h3, of "sample_lib (Datetime 2024 3 1)"
      purpose_fields refinance_context "[]" "[]"]
  show ?thesis
    by (simp only: evaluate_def v i bind_res_def sum.case hashable.simps if_False simp_thms
        results_set.simps evaluate_loop.simps(1))
qed

section \<open>Value normalizers\<close>

text \<open>
  Claim C5, as stated: a number of magnitude at most 1 is multiplied by 100, any other
  number is returned unchanged. The code tests the value, not its magnitude: \<^verbatim>\<open>to_pct(-5)\<close>
  is -500, where the claim gives -5.
\<close>

theorem to_pct_magnitude_counterexample:
  "to_pct (sample_lib (Datetime 2024 3 1)) (PInt (- 5)) = Some (- 500)
   \<and> to_percent_spec (- 5) = - 5"
  by (simp add: to_pct_def to_percent_spec_def)

text \<open>
  Claim C5, amended: for an input that parses as the number v, percent coercion returns
  v * 100 when v is at most 1 (by value) and v otherwise, which is the specification's
  magnitude rule for every v from -1 upwards; for an input that does not parse as a number
  (null included) it returns null. The \<^verbatim>\<open>GT\<close> comparison of the trigger matcher compares
  the same coerced value.
\<close>

theorem to_pct_by_value:
  "(py_float L x = None \<longrightarrow> to_pct L x = None)
   \<and> (\<forall>v. py_float L x = Some v \<longrightarrow> to_pct L x = Some (if v \<le> 1 then v * 100 else v))
   \<and> (\<forall>v. py_float L x = Some v \<longrightarrow> - 1 \<le> v \<longrightarrow> to_pct L x = Some (to_percent_spec v))
   \<and> py_float L PNone = None
   \<and> match_value L x (PStr (''GT'' @ n)) =
       (\<exists>p t. to_pct L x = Some p \<and> float_of_str L n = Some t \<and> t < p)"
proof -
  have 1: "py_float L x = None \<longrightarrow> to_pct L x = None"
    by (simp add: to_pct_def)
  have 2: "\<forall>v. py_float L x = Some v \<longrightarrow> to_pct L x = Some (if v \<le> 1 then v * 100 else v)"
    by (cases x) (auto simp: to_pct_def)
  have 3: "\<forall>v. py_float L x = Some v \<longrightarrow> - 1 \<le> v \<longrightarrow> to_pct L x = Some (to_percent_spec v)"
    using 2 by (auto simp: to_percent_spec_def)
  have 4: "py_float L PNone = None" by simp
  have 5: "match_value L x (PStr (''GT'' @ n)) =
       (\<exists>p t. to_pct L x = Some p \<and> float_of_str L n = Some t \<and> t < p)"
    by (cases x) (auto simp: match_value_def startswith_def to_pct_def split: option.splits)
  from 1 2 3 4 5 show ?thesis by blast
qed

theorem to_pct_by_value_witness:
  "to_pct (sample_lib (Datetime 2024 3 1)) (PFloat (95 / 100)) = Some 95
   \<and> to_pct (sample_lib (Datetime 2024 3 1)) (PInt 95) = Some 95
   \<and> to_pct (sample_lib (Datetime 2024 3 1)) PNone = None
   \<and> to_pct (sample_lib (Datetime 2024 3 1)) (PStr ''abc'') = None"
  using to_pct_by_value [of "sample_lib (Datetime 2024 3 1)" "PFloat (95 / 100)"]
        to_pct_by_value [of "sample_lib (Datetime 2024 3 1)" "PInt 95"]
        to_pct_by_value [of "sample_lib (Datetime 2024 3 1)" "PNone"]
        to_pct_by_value [of "sample_lib (Datetime 2024 3 1)" "PStr ''abc''"]
  by (simp add: sample_lib_def to_pct_def)

text \<open>
  Claim C6, as stated: \<^verbatim>\<open>months_between\<close> raises if and only if either input fails to parse
  as a date. A null second argument does not parse as a date, yet the call returns: null
  stands for the current time (here 1 March 2024).
\<close>

theorem months_between_null_counterexample:
  "parse_date (sample_lib (Datetime 2024 3 1)) PNone = None
   \<and> months_between (sample_lib (Datetime 2024 3 1)) (PDate (Datetime 2024 1 15)) PNone = Inr 2"
  by (simp add: parse_date_def months_between_def sample_lib_def)

text \<open>
  Claim C6, amended: \<^verbatim>\<open>months_between(d1, d2)\<close> raises if and only if d1 fails to parse as
  a date, or d2 is not null and fails to parse; a null d2 is the current time. When both
  parse, the result is abs((y2 - y1) * 12 + (m2 - m1)), whatever the days of the month; it
  is the same in both orders for arguments that are not null, and 0 for two dates of one
  calendar month.
\<close>

theorem months_between_spec:
  "((\<exists>e. months_between L d1 d2 = Inl e) \<longleftrightarrow>
      (parse_date L d1 = None \<or> (d2 \<noteq> PNone \<and> parse_date L d2 = None)))
   \<and> (\<forall>a b. parse_date L d1 = Some a \<longrightarrow> parse_date L d2 = Some b \<longrightarrow>
         months_between L d1 d2 = Inr \<bar>(year b - year a) * 12 + (month b - month a)\<bar>)
   \<and> (\<forall>a. parse_date L d1 = Some a \<longrightarrow>
         months_between L d1 PNone
           = Inr \<bar>(year (now L) - year a) * 12 + (month (now L) - month a)\<bar>)
   \<and> (d1 \<noteq> PNone \<longrightarrow> d2 \<noteq> PNone \<longrightarrow> months_between L d1 d2 = months_between L d2 d1)
   \<and> (\<forall>a b. parse_date L d1 = Some a \<longrightarrow> parse_date L d2 = Some b \<longrightarrow>
         year a = year b \<longrightarrow> month a = month b \<longrightarrow> months_between L d1 d2 = Inr 0)"
proof -
  have pn: "parse_date L PNone = None" by (simp add: parse_date_def)
  have 1: "(\<exists>e. months_between L d1 d2 = Inl e) \<longleftrightarrow>
      (parse_date L d1 = None \<or> (d2 \<noteq> PNone \<and> parse_date L d2 = None))"
    by (auto simp: months_between_def split: option.splits)
  have 2: "\<forall>a b. parse_date L d1 = Some a \<longrightarrow> parse_date L d2 = Some b \<longrightarrow>
         months_between L d1 d2 = Inr \<bar>(year b - year a) * 12 + (month b - month a)\<bar>"
    using pn by (auto simp: months_between_def)
  have 3: "\<forall>a. parse_date L d1 = Some a \<longrightarrow>
         months_between L d1 PNone
           = Inr \<bar>(year (now L) - year a) * 12 + (month (now L) - month a)\<bar>"
    by (simp add: months_between_def)
  have 4: "d1 \<noteq> PNone \<longrightarrow> d2 \<noteq> PNone \<longrightarrow> months_between L d1 d2 = months_between L d2 d1"
    by (auto simp: months_between_def split: option.splits)
  have 5: "\<forall>a b. parse_date L d1 = Some a \<longrightarrow> parse_date L d2 = Some b \<longrightarrow>
         year a = year b \<longrightarrow> month a = month b \<longrightarrow> months_between L d1 d2 = Inr 0"
    using 2 by simp
  from 1 2 3 4 5 show ?thesis by blast
qed

theorem months_between_spec_witness:
  "months_between (sample_lib (Datetime 2024 3 1))
      (PDate (Datetime 2023 11 30)) (PDate (Datetime 2025 2 1)) = Inr 15
   \<and> months_between (sample_lib (Datetime 2024 3 1))
      (PDate (Datetime 2025 2 1)) (PDate (Datetime 2023 11 30)) = Inr 15
   \<and> months_between (sample_lib (Datetime 2024 3 1))
      (PDate (Datetime 2024 5 1)) (PDate (Datetime 2024 5 31)) = Inr 0
   \<and> months_between (sample_lib (Datetime 2024 3 1))
      (PStr ''TBD'') (PDate (Datetime 2024 5 31)) = Inl ValueError"
  using months_between_spec [of "sample_lib (Datetime 2024 3 1)"
          "PDate (Datetime 2023 11 30)" "PDate (Datetime 2025 2 1)"]
        months_between_spec [of "sample_lib (Datetime 2024 3 1)"
          "PDate (Datetime 2024 5 1)" "PDate (Datetime 2024 5 31)"]
        months_between_spec [of "sample_lib (Datetime 2024 3 1)"
          "PStr ''TBD''" "PDate (Datetime 2024 5 31)"]
  by (simp add: parse_date_def sample_lib_def SUPPORTED_FORMATS_def months_between_def)

section \<open>Cash-out seasoning validator\<close>




section \<open>Fraud validator\<close>

text \<open>
  Claim C8: with all four address components matching, the verdict is NOT_APPLICABLE when
  the fraud date or the estimated closing date is missing or unparseable. The code parses
  the closing date, hands the resulting null to \<^verbatim>\<open>months_between\<close>, and that reads the clock
  instead of raising: with the closing date \<^verbatim>\<open>TBD\<close> (which does not parse), a fraud record of
  January 2024 and the clock in March 2024, the verdict is ALERT.
\<close>

theorem fraud_unparseable_closing_date:
  "parse_date (sample_lib (Datetime 2024 3 1)) (PStr ''TBD'') = None
   \<and> result_status (FraudValidator_evaluate (sample_lib (Datetime 2024 3 1)) fraud_fields
        fraud_rule tbd_context) = Inr ALERT"
  by (simp add: FraudValidator_evaluate_def fraud_dates_def address_differs_def fraud_fields_def
      fraud_rule_def tbd_context_def sample_lib_def eval_simps)

text \<open>
  Claim C9: two runs of the dispatcher on one unmodified context yield the same verdicts.
  The model is a function of the library, and so of the clock; the same rule set,
  configuration and context give ALERT with the clock in March 2024 and PASS with the clock
  in March 2025.
\<close>

theorem evaluate_depends_on_clock:
  "statuses (evaluate (sample_lib (Datetime 2024 3 1)) fraud_fields [fraud_rule] tbd_context)
     = Inr [(PStr ''FRAUD-1'', ALERT)]
   \<and> statuses (evaluate (sample_lib (Datetime 2025 3 1)) fraud_fields [fraud_rule] tbd_context)
     = Inr [(PStr ''FRAUD-1'', PASS)]"
  by (simp add: evaluate_def validators_get_def validators_def
      FraudValidator_evaluate_def fraud_dates_def address_differs_def fraud_fields_def
      fraud_rule_def tbd_context_def sample_lib_def eval_simps)



end
